theory Spec2Isabelle
  imports Main "HOL-Library.Word" "HOL-Library.Signed_Division"
begin

section \<open>Go values used by chunk.go\<close>

text \<open>
  \<open>int64\<close> is a 64-bit word read as two's complement (\<open>sint\<close>); \<open>+\<close> and \<open>-\<close> wrap as
  in Go. The platform \<open>int\<close> is taken to be 64 bits wide, so \<open>int(req.offsetStart)\<close> is the
  identity and \<open>len\<close> of a slice is a non-negative 64-bit value.
\<close>

type_synonym int64 = "64 word"
type_synonym byte = "8 word"

datatype panic = IntegerDivideByZero | MakeSliceLenOutOfRange | SliceBoundsOutOfRange

text \<open>Go's \<open>a % b\<close> for \<open>b \<noteq> 0\<close>: the remainder of the division truncated towards zero.\<close>

definition go_rem :: "int64 \<Rightarrow> int64 \<Rightarrow> int64" where
  "go_rem a b = word_of_int (sint a smod sint b)"

text \<open>
  \<open>make([]byte, n)\<close> panics for a negative length and for a length beyond the runtime's
  largest allocation (\<open>maxAlloc\<close>, \<open>1 << 48\<close> on 64-bit platforms); otherwise it is \<open>n\<close>
  zero bytes.
\<close>

definition maxAlloc :: int where
  "maxAlloc = 2 ^ 48"

definition make_bytes :: "int64 \<Rightarrow> panic + byte list" where
  "make_bytes n =
     (if sint n < 0 \<or> maxAlloc < sint n then Inl MakeSliceLenOutOfRange
      else Inr (replicate (nat (sint n)) 0))"

text \<open>
  \<open>float64(x)\<close> of an integer \<open>x\<close> rounds to 53 significant bits, to nearest, ties to even. The
  result is again an integer, so the floats of this program are represented by their integer
  value. \<open>excess_bits a\<close> is the number of low bits of \<open>a\<close> that do not fit the significand.
\<close>

function excess_bits :: "int \<Rightarrow> nat" where
  "excess_bits a = (if a < 2 ^ 53 then 0 else Suc (excess_bits (a div 2)))"
  by pat_completeness auto
termination
  by (relation "measure nat") auto

declare excess_bits.simps [simp del]

definition float64 :: "int \<Rightarrow> int" where
  "float64 x =
     (let a = \<bar>x\<bar>;
          e = excess_bits a;
          q = a div 2 ^ e;
          r = a mod 2 ^ e;
          q' = (if 2 ^ e < 2 * r \<or> (2 * r = 2 ^ e \<and> odd q) then q + 1 else q)
      in sgn x * (q' * 2 ^ e))"

text \<open>\<open>math.Min\<close> on two finite floats.\<close>

definition math_Min :: "int \<Rightarrow> int \<Rightarrow> int" where
  "math_Min x y = min x y"

text \<open>
  \<open>int64(f)\<close> of an integer-valued float. Outside the range of \<open>int64\<close> the result is
  implementation-specific; amd64 yields the smallest \<open>int64\<close>.
\<close>

definition int64_of_float :: "int \<Rightarrow> int64" where
  "int64_of_float f =
     (if - (2 ^ 63) \<le> f \<and> f < 2 ^ 63 then word_of_int f else word_of_int (- (2 ^ 63)))"

text \<open>
  The slice expression \<open>s[lo:hi]\<close> on a slice whose capacity is its length: a run-time panic
  unless \<open>0 \<le> lo \<le> hi \<le> len(s)\<close>.
\<close>

definition slice :: "byte list \<Rightarrow> int64 \<Rightarrow> int64 \<Rightarrow> panic + byte list" where
  "slice s lo hi =
     (if 0 \<le> sint lo \<and> sint lo \<le> sint hi \<and> sint hi \<le> int (length s)
      then Inr (drop (nat (sint lo)) (take (nat (sint hi)) s))
      else Inl SliceBoundsOutOfRange)"

section \<open>The data model of chunk.go\<close>

text \<open>
  \<open>filepath.Join(m.ChunkPath, req.Object.ObjectID)\<close> is kept as the pair of its components,
  and the chunk file below it as that directory with the window start that
  \<open>strconv.Itoa\<close> would print (an injective rendering).
\<close>

type_synonym dirname = "string \<times> string"
type_synonym filename = "dirname \<times> int64"

datatype fmt_arg = ArgFile filename | ArgInt int64

datatype error = Errorf string "fmt_arg list"

datatype DownloadManager = DownloadManager

record ChunkManager =
  ChunkPath :: string
  ChunkSize :: int64
  downloadManager :: DownloadManager

record APIObject =
  ObjectID :: string

record ChunkRequest =
  Object :: APIObject
  Offset :: int64
  Size :: int64
  Preload :: bool
  req_id :: "string \<times> int64"
  fOffset :: int64
  offsetStart :: int64
  offsetEnd :: int64

record ChunkResponse =
  Error :: "error option"
  Bytes :: "byte list"

section \<open>The file system and the environment of one call\<close>

record fsfile =
  content :: "byte list"
  atime :: nat
  mtime :: nat

record disk =
  dirs :: "dirname set"
  files :: "filename \<Rightarrow> fsfile option"

datatype read_error = EOF | ErrUnexpectedEOF | EIO

datatype write_fault = CreateFails | WriteFailsAfter nat

text \<open>
  What the world outside the chunk manager does during one call of \<open>RequestChunk\<close>: the
  answer of the download gateway, the clock, and the operating-system failures that may hit
  each file operation.
\<close>

record env =
  api :: "ChunkRequest \<Rightarrow> ChunkResponse"
  now :: nat
  open_fault :: bool
  read_fault :: "nat option"
  chtimes_fault :: bool
  stat_dir_fault :: bool
  mkdir_fault :: bool
  stat_file_fault :: bool
  write_fault :: "write_fault option"

text \<open>
  \<open>f.ReadAt(buf, off)\<close> on a file holding \<open>data\<close>: an error and no byte for a negative offset;
  otherwise the bytes from \<open>off\<close> on are copied into \<open>buf\<close>, with \<open>io.EOF\<close> when the file ends
  before \<open>buf\<close> is full, and with an I/O error after \<open>k\<close> bytes when the environment says so.
  The result is the buffer, the count \<open>n\<close> and the error.
\<close>

definition ReadAt ::
  "env \<Rightarrow> byte list \<Rightarrow> byte list \<Rightarrow> int64 \<Rightarrow> byte list \<times> int \<times> read_error option" where
  "ReadAt e data buf off =
     (if sint off < 0 then (buf, 0, Some EIO)
      else
        let avail = drop (nat (sint off)) data;
            n = min (length buf) (length avail);
            faulty = (case read_fault e of None \<Rightarrow> False | Some k \<Rightarrow> k < n);
            got = (case read_fault e of None \<Rightarrow> n | Some k \<Rightarrow> min k n);
            err = (if faulty then Some EIO else if got < length buf then Some EOF else None)
        in (take got avail @ drop got buf, int got, err))"

definition Chtimes :: "env \<Rightarrow> disk \<Rightarrow> filename \<Rightarrow> disk" where
  "Chtimes e d fn =
     (case files d fn of
        None \<Rightarrow> d
      | Some f \<Rightarrow>
          if chtimes_fault e then d
          else d\<lparr>files := (files d)(fn \<mapsto> f\<lparr>atime := now e, mtime := now e\<rparr>)\<rparr>)"

definition MkdirAll :: "env \<Rightarrow> disk \<Rightarrow> dirname \<Rightarrow> disk" where
  "MkdirAll e d dir = (if mkdir_fault e then d else d\<lparr>dirs := insert dir (dirs d)\<rparr>)"

text \<open>
  \<open>ioutil.WriteFile\<close> creates or truncates the file and writes the bytes. It fails without a
  trace when the file cannot be created (also when its directory is missing), and leaves a
  prefix of the bytes when the write fails part-way.
\<close>

definition WriteFile :: "env \<Rightarrow> disk \<Rightarrow> filename \<Rightarrow> byte list \<Rightarrow> disk" where
  "WriteFile e d fn bs =
     (if fst fn \<notin> dirs d then d
      else
        case write_fault e of
          None \<Rightarrow> d\<lparr>files := (files d)(fn \<mapsto> \<lparr>content = bs, atime = now e, mtime = now e\<rparr>)\<rparr>
        | Some CreateFails \<Rightarrow> d
        | Some (WriteFailsAfter k) \<Rightarrow>
            d\<lparr>files := (files d)(fn \<mapsto> \<lparr>content = take k bs, atime = now e, mtime = now e\<rparr>)\<rparr>)"

section \<open>chunk.go\<close>

text \<open>
  The functions of the file, in its order. The calls of the logger change neither a result
  nor the disk and are left out; a request always carries its object, so that
  \<open>req.Object.ObjectID\<close> is a plain field access.
\<close>

definition NewChunkManager ::
  "DownloadManager \<Rightarrow> string \<Rightarrow> int64 \<Rightarrow> error + ChunkManager" where
  "NewChunkManager dm chunkPath chunkSize =
     (if chunkPath = [] then Inl (Errorf ''Path to chunk file must not be empty'' [])
      else if sint chunkSize < 4096 then Inl (Errorf ''Chunk size must not be < 4096'' [])
      else if go_rem chunkSize 1024 \<noteq> 0
        then Inl (Errorf ''Chunk size must be divideable by 1024'' [])
      else Inr \<lparr>ChunkPath = chunkPath, ChunkSize = chunkSize, downloadManager = dm\<rparr>)"

definition chunkDir :: "ChunkManager \<Rightarrow> ChunkRequest \<Rightarrow> dirname" where
  "chunkDir m req = (ChunkPath m, ObjectID (Object req))"

definition chunkFile :: "ChunkManager \<Rightarrow> ChunkRequest \<Rightarrow> filename" where
  "chunkFile m req = (chunkDir m req, offsetStart req)"

text \<open>Lines 66 to 69 of \<open>RequestChunk\<close>: the derived fields of the request.\<close>

definition align :: "ChunkManager \<Rightarrow> ChunkRequest \<Rightarrow> panic + ChunkRequest" where
  "align m req =
     (if ChunkSize m = 0 then Inl IntegerDivideByZero
      else
        let f = go_rem (Offset req) (ChunkSize m);
            s = Offset req - f
        in Inr (req\<lparr>fOffset := f, offsetStart := s, offsetEnd := s + ChunkSize m,
                    req_id := (ObjectID (Object req), s)\<rparr>))"

definition loadChunkFromDisk ::
  "ChunkManager \<Rightarrow> env \<Rightarrow> ChunkRequest \<Rightarrow> disk \<Rightarrow> panic + (ChunkResponse \<times> disk)" where
  "loadChunkFromDisk m e req d =
     (let fn = chunkFile m req in
      case (if open_fault e then None else files d fn) of
        None \<Rightarrow> Inr (\<lparr>Error = Some (Errorf ''Could not open file %v'' [ArgFile fn]), Bytes = []\<rparr>, d)
      | Some f \<Rightarrow>
          (case make_bytes (Size req) of
             Inl p \<Rightarrow> Inl p
           | Inr buf0 \<Rightarrow>
               (case ReadAt e (content f) buf0 (fOffset req) of
                  (buf, n, err) \<Rightarrow>
                    if 0 < n \<and> (err = None \<or> err = Some EOF \<or> err = Some ErrUnexpectedEOF)
                    then
                      let d' = Chtimes e d fn;
                          eOffset = int64_of_float
                            (math_Min (float64 (sint (Size req))) (float64 (int (length buf))))
                      in (case slice buf 0 eOffset of
                            Inl p \<Rightarrow> Inl p
                          | Inr bs \<Rightarrow> Inr (\<lparr>Error = None, Bytes = bs\<rparr>, d'))
                    else
                      Inr (\<lparr>Error = Some (Errorf ''Could not read file %s at %v''
                                            [ArgFile fn, ArgInt (fOffset req)]),
                            Bytes = []\<rparr>, d))))"

definition storeChunkToDisk ::
  "ChunkManager \<Rightarrow> env \<Rightarrow> ChunkRequest \<Rightarrow> ChunkResponse \<Rightarrow> disk \<Rightarrow> disk" where
  "storeChunkToDisk m e req res d =
     (let dir = chunkDir m req;
          fn = chunkFile m req;
          d1 = (if dir \<notin> dirs d \<and> \<not> stat_dir_fault e then MkdirAll e d dir else d)
      in if files d1 fn = None \<and> \<not> stat_file_fault e then WriteFile e d1 fn (Bytes res) else d1)"

text \<open>
  The sub-range of the gateway's bytes, lines 81 to 84: the two bounds, then the slice
  expression.
\<close>

definition subrange_bounds :: "ChunkRequest \<Rightarrow> byte list \<Rightarrow> int64 \<times> int64" where
  "subrange_bounds req bs =
     (int64_of_float (math_Min (float64 (sint (fOffset req))) (float64 (int (length bs)))),
      int64_of_float
        (math_Min (float64 (sint (fOffset req + Size req))) (float64 (int (length bs)))))"

definition subrange :: "ChunkRequest \<Rightarrow> byte list \<Rightarrow> panic + byte list" where
  "subrange req bs = (case subrange_bounds req bs of (sOffset, eOffset) \<Rightarrow> slice bs sOffset eOffset)"

text \<open>
  One call of \<open>RequestChunk\<close>, as the run of its goroutine against a consumer that reads the
  channel to its end: the events on the channel in order, the requests handed to the
  gateway (with their derived fields), the disk afterwards, and the panic that ended the
  goroutine, if any. The deferred \<open>close(res)\<close> runs on every path, also when the goroutine
  panics.
\<close>

datatype event = Message ChunkResponse | Close

record run =
  events :: "event list"
  gateway_calls :: "ChunkRequest list"
  disk_after :: disk
  panicked :: "panic option"

definition RequestChunk :: "ChunkManager \<Rightarrow> env \<Rightarrow> ChunkRequest \<Rightarrow> disk \<Rightarrow> run" where
  "RequestChunk m e req0 d =
     (case align m req0 of
        Inl p \<Rightarrow> \<lparr>events = [Close], gateway_calls = [], disk_after = d, panicked = Some p\<rparr>
      | Inr req \<Rightarrow>
          (case loadChunkFromDisk m e req d of
             Inl p \<Rightarrow> \<lparr>events = [Close], gateway_calls = [], disk_after = d, panicked = Some p\<rparr>
           | Inr (diskRes, d1) \<Rightarrow>
               let sent = (if Error diskRes \<noteq> None then [] else [Message diskRes]);
                   apiRes = api e req
               in if Error apiRes = None
                  then (case subrange req (Bytes apiRes) of
                          Inl p \<Rightarrow>
                            \<lparr>events = sent @ [Close], gateway_calls = [req], disk_after = d1,
                             panicked = Some p\<rparr>
                        | Inr bs \<Rightarrow>
                            \<lparr>events = sent @ [Message \<lparr>Error = None, Bytes = bs\<rparr>, Close],
                             gateway_calls = [req],
                             disk_after = storeChunkToDisk m e req apiRes d1,
                             panicked = None\<rparr>)
                  else \<lparr>events = sent @ [Message apiRes, Close], gateway_calls = [req],
                        disk_after = d1, panicked = None\<rparr>))"

section \<open>Observations on a run\<close>



section \<open>Concrete managers, requests, disks and environments\<close>

definition sample_manager :: "int64 \<Rightarrow> ChunkManager" where
  "sample_manager cs = \<lparr>ChunkPath = ''cache'', ChunkSize = cs, downloadManager = DownloadManager\<rparr>"

text \<open>A request as a caller builds it: the derived fields still hold Go's zero values.\<close>

definition sample_request :: "int64 \<Rightarrow> int64 \<Rightarrow> ChunkRequest" where
  "sample_request off sz =
     \<lparr>Object = \<lparr>ObjectID = ''obj''\<rparr>, Offset = off, Size = sz, Preload = False,
      req_id = ([], 0), fOffset = 0, offsetStart = 0, offsetEnd = 0\<rparr>"

text \<open>An environment without operating-system failures, whose gateway answers \<open>r\<close>.\<close>

definition calm_env :: "ChunkResponse \<Rightarrow> env" where
  "calm_env r =
     \<lparr>api = (\<lambda>_. r), now = 1, open_fault = False, read_fault = None, chtimes_fault = False,
      stat_dir_fault = False, mkdir_fault = False, stat_file_fault = False, write_fault = None\<rparr>"

definition empty_disk :: disk where
  "empty_disk = \<lparr>dirs = {}, files = Map.empty\<rparr>"

text \<open>A disk that caches one chunk of the sample object: the window at \<open>start\<close> holds \<open>bs\<close>.\<close>

definition cached_disk :: "int64 \<Rightarrow> byte list \<Rightarrow> disk" where
  "cached_disk start bs =
     \<lparr>dirs = {(''cache'', ''obj'')},
      files = [((''cache'', ''obj''), start) \<mapsto> \<lparr>content = bs, atime = 0, mtime = 0\<rparr>]\<rparr>"

text \<open>A gateway answer that carries an error.\<close>

definition failed_download :: ChunkResponse where
  "failed_download = \<lparr>Error = Some (Errorf ''download failed'' []), Bytes = []\<rparr>"

section \<open>Arithmetic of the Go values\<close>

lemma excess_bits_small: "a < 2 ^ 53 \<Longrightarrow> excess_bits a = 0"
  by (simp add: excess_bits.simps)

lemma excess_bits_div: "0 \<le> a \<Longrightarrow> a div 2 ^ excess_bits a < 2 ^ 53"
proof (induction a rule: excess_bits.induct)
  case (1 a)
  show ?case
  proof (cases "a < 2 ^ 53")
    case True
    then show ?thesis by (simp add: excess_bits_small)
  next
    case False
    then have e: "excess_bits a = Suc (excess_bits (a div 2))"
      by (subst excess_bits.simps) simp
    have "a div 2 div 2 ^ excess_bits (a div 2) < 2 ^ 53"
      using 1 False by simp
    then show ?thesis
      by (simp add: e zdiv_zmult2_eq)
  qed
qed

lemma excess_bits_div_ge: "2 ^ 53 \<le> a \<Longrightarrow> 2 ^ 52 \<le> a div 2 ^ excess_bits a"
proof (induction a rule: excess_bits.induct)
  case (1 a)
  then have e: "excess_bits a = Suc (excess_bits (a div 2))"
    by (subst excess_bits.simps) simp
  show ?case
  proof (cases "a div 2 < 2 ^ 53")
    case True
    then have "excess_bits (a div 2) = 0" by (rule excess_bits_small)
    with 1(2) show ?thesis by (simp add: e)
  next
    case False
    then have "2 ^ 52 \<le> a div 2 div 2 ^ excess_bits (a div 2)"
      using 1 by simp
    then show ?thesis by (simp add: e zdiv_zmult2_eq)
  qed
qed

lemma float64_exact: "\<bar>x\<bar> < 2 ^ 53 \<Longrightarrow> float64 x = x"
  by (simp add: float64_def excess_bits_small Let_def mult_sgn_abs)

lemma float64_pos_ge: assumes "2 ^ 53 \<le> x" shows "2 ^ 53 \<le> float64 x"
proof -
  define e where "e = excess_bits x"
  define q where "q = x div 2 ^ e"
  define q' where "q' = (if 2 ^ e < 2 * (x mod 2 ^ e) \<or> (2 * (x mod 2 ^ e) = 2 ^ e \<and> odd q) then q + 1 else q)"
  from assms have e0: "e \<noteq> 0"
    unfolding e_def by (subst excess_bits.simps) simp
  have q: "2 ^ 52 \<le> q" unfolding q_def e_def using assms by (rule excess_bits_div_ge)
  have qq: "q \<le> q'" by (simp add: q'_def)
  from e0 have "(2::int) ^ 1 \<le> 2 ^ e" by (intro power_increasing) auto
  then have e2: "(2::int) \<le> 2 ^ e" by simp
  have "(2::int) ^ 52 * 2 \<le> q' * 2 ^ e"
    using q qq e2 by (intro mult_mono) auto
  then have a: "2 ^ 53 \<le> q' * 2 ^ e" by simp
  from assms have ax: "\<bar>x\<bar> = x" "sgn x = 1" by auto
  have "float64 x = q' * 2 ^ e"
    unfolding float64_def Let_def ax e_def [symmetric] q_def [symmetric] q'_def by simp
  with a show ?thesis by simp
qed

lemma float64_neg: assumes "x < 0" shows "float64 x < 0"
proof -
  define a where "a = \<bar>x\<bar>"
  define e where "e = excess_bits a"
  define q where "q = a div 2 ^ e"
  define q' where "q' = (if 2 ^ e < 2 * (a mod 2 ^ e) \<or> (2 * (a mod 2 ^ e) = 2 ^ e \<and> odd q) then q + 1 else q)"
  have apos: "0 < a" using assms by (simp add: a_def)
  have "0 < q"
  proof (cases "a < 2 ^ 53")
    case True
    then have "e = 0" unfolding e_def by (rule excess_bits_small)
    then show ?thesis using apos by (simp add: q_def)
  next
    case False
    then have "2 ^ 52 \<le> q" unfolding q_def e_def by (intro excess_bits_div_ge) simp
    then show ?thesis by simp
  qed
  then have "0 < q'" by (simp add: q'_def)
  then have pos: "0 < q' * 2 ^ e" by simp
  have s: "sgn x = - 1" using assms by simp
  have "float64 x = - (q' * 2 ^ e)"
    unfolding float64_def Let_def a_def [symmetric] e_def [symmetric] q_def [symmetric] q'_def s by simp
  with pos show ?thesis by simp
qed

lemma sint_word_of_int64:
  "- (2 ^ 63) \<le> k \<Longrightarrow> k < 2 ^ 63 \<Longrightarrow> sint (word_of_int k :: int64) = k"
  by (simp add: sint_sbintrunc' signed_take_bit_int_eq_self)

lemma int64_of_float_neg: "f < 0 \<Longrightarrow> sint (int64_of_float f) < 0"
  by (simp add: int64_of_float_def sint_word_of_int64)

lemma int64_of_float_id: "0 \<le> f \<Longrightarrow> f < 2 ^ 63 \<Longrightarrow> sint (int64_of_float f) = f"
  by (simp add: int64_of_float_def sint_word_of_int64)


lemma smod_nonneg: "0 \<le> k \<Longrightarrow> 0 < l \<Longrightarrow> k smod l = k mod (l::int)"
  by (cases "k = 0") (simp_all add: signed_modulo_int_def)

lemma go_rem_nonneg:
  assumes "0 \<le> sint a" and "0 < sint b"
  shows "sint (go_rem a b) = sint a mod sint b"
proof -
  have "sint a mod sint b < sint b" using assms by simp
  also have "sint b < 2 ^ 63" using sint_lt [of b] by simp
  finally have hi: "sint a mod sint b < 2 ^ 63" .
  have "0 \<le> sint a mod sint b" using assms by simp
  then have lo: "- (2 ^ 63) \<le> sint a mod sint b" by simp
  have "sint (word_of_int (sint a mod sint b) :: int64) = sint a mod sint b"
    using lo hi by (rule sint_word_of_int64)
  then show ?thesis
    using assms by (simp add: go_rem_def smod_nonneg)
qed

lemma sint_sub64:
  "- (2 ^ 63) \<le> sint a - sint b \<Longrightarrow> sint a - sint b < 2 ^ 63 \<Longrightarrow> sint (a - b :: int64) = sint a - sint b"
  by (simp add: sint_word_ariths signed_take_bit_int_eq_self)

lemma sint_add64:
  "- (2 ^ 63) \<le> sint a + sint b \<Longrightarrow> sint a + sint b < 2 ^ 63 \<Longrightarrow> sint (a + b :: int64) = sint a + sint b"
  by (simp add: sint_word_ariths signed_take_bit_int_eq_self)

lemma align_nonneg:
  assumes "0 < sint (ChunkSize m)" and "0 \<le> sint (Offset req)"
  shows "\<exists>r. align m req = Inr r
    \<and> sint (fOffset r) = sint (Offset req) mod sint (ChunkSize m)
    \<and> sint (offsetStart r) = sint (Offset req) - sint (Offset req) mod sint (ChunkSize m)
    \<and> offsetEnd r = offsetStart r + ChunkSize m
    \<and> req_id r = (ObjectID (Object req), offsetStart r)
    \<and> Object r = Object req \<and> Offset r = Offset req \<and> Size r = Size req \<and> Preload r = Preload req"
proof -
  let ?f = "go_rem (Offset req) (ChunkSize m)"
  have nz: "ChunkSize m \<noteq> 0" using assms(1) by auto
  have f: "sint ?f = sint (Offset req) mod sint (ChunkSize m)"
    using assms by (simp add: go_rem_nonneg)
  have "0 \<le> sint (Offset req) mod sint (ChunkSize m)"
    and "sint (Offset req) mod sint (ChunkSize m) \<le> sint (Offset req)"
    using assms by (simp_all add: zmod_le_nonneg_dividend)
  moreover have "sint (Offset req) < 2 ^ 63" using sint_lt [of "Offset req"] by simp
  ultimately have s: "sint (Offset req - ?f) = sint (Offset req) - sint (Offset req) mod sint (ChunkSize m)"
    using f by (simp add: sint_sub64)
  show ?thesis
    using nz f s by (simp add: align_def Let_def)
qed


lemma float_min_clip:
  assumes "0 \<le> x" and "0 \<le> L" and "L \<le> maxAlloc"
  shows "sint (int64_of_float (math_Min (float64 x) (float64 L))) = min x L"
proof -
  have L53: "L < 2 ^ 53" using assms(3) by (simp add: maxAlloc_def)
  then have fl: "float64 L = L" using assms(2) by (simp add: float64_exact)
  have m: "min (float64 x) L = min x L"
  proof (cases "x < 2 ^ 53")
    case True
    then show ?thesis using assms(1) by (simp add: float64_exact)
  next
    case False
    then have "2 ^ 53 \<le> float64 x" by (intro float64_pos_ge) simp
    then show ?thesis using False L53 by simp
  qed
  have "0 \<le> min x L" "min x L < 2 ^ 63" using assms(1,2) L53 by simp_all
  then show ?thesis
    unfolding math_Min_def fl m by (rule int64_of_float_id)
qed

lemma float_min_neg:
  assumes "x < 0"
  shows "sint (int64_of_float (math_Min (float64 x) y)) < 0"
proof -
  have "min (float64 x) y \<le> float64 x" by simp
  also have "float64 x < 0" using assms by (rule float64_neg)
  finally show ?thesis unfolding math_Min_def by (rule int64_of_float_neg)
qed

lemma subrange_bounds_clip:
  assumes "0 \<le> sint (fOffset req)" and "0 \<le> sint (Size req)"
    and "sint (fOffset req) + sint (Size req) < 2 ^ 63"
    and "int (length bs) \<le> maxAlloc"
  shows "sint (fst (subrange_bounds req bs)) = min (sint (fOffset req)) (int (length bs))"
    and "sint (snd (subrange_bounds req bs)) =
           min (sint (fOffset req) + sint (Size req)) (int (length bs))"
proof -
  show "sint (fst (subrange_bounds req bs)) = min (sint (fOffset req)) (int (length bs))"
    using assms(1,4) by (simp add: subrange_bounds_def float_min_clip)
  have "sint (fOffset req + Size req) = sint (fOffset req) + sint (Size req)"
    using assms(1,2,3) by (intro sint_add64) simp_all
  then show "sint (snd (subrange_bounds req bs)) =
           min (sint (fOffset req) + sint (Size req)) (int (length bs))"
    using assms(1,2,4) by (simp add: subrange_bounds_def float_min_clip)
qed

lemma subrange_clip:
  assumes "0 \<le> sint (fOffset req)" and "0 \<le> sint (Size req)"
    and "sint (fOffset req) + sint (Size req) < 2 ^ 63"
    and "int (length bs) \<le> maxAlloc"
  shows "subrange req bs =
      Inr (drop (nat (min (sint (fOffset req)) (int (length bs))))
             (take (nat (min (sint (fOffset req) + sint (Size req)) (int (length bs)))) bs))"
proof -
  note b = subrange_bounds_clip [OF assms]
  obtain s e where se: "subrange_bounds req bs = (s, e)" by (cases "subrange_bounds req bs")
  from b se have s: "sint s = min (sint (fOffset req)) (int (length bs))"
    and e: "sint e = min (sint (fOffset req) + sint (Size req)) (int (length bs))" by simp_all
  have "0 \<le> sint s" "sint s \<le> sint e" "sint e \<le> int (length bs)"
    using assms(1,2) unfolding s e by simp_all
  then show ?thesis
    unfolding subrange_def se by (simp add: slice_def s e)
qed

lemma ReadAt_length: "length (fst (ReadAt e data buf off)) = length buf"
  by (auto simp: ReadAt_def Let_def split: option.splits)

lemma slice_full: "sint hi = int (length s) \<Longrightarrow> slice s 0 hi = Inr s"
  by (simp add: slice_def)

lemma loadChunkFromDisk_miss_open:
  "open_fault e \<or> files d (chunkFile m req) = None \<Longrightarrow>
   loadChunkFromDisk m e req d =
     Inr (\<lparr>Error = Some (Errorf ''Could not open file %v'' [ArgFile (chunkFile m req)]),
           Bytes = []\<rparr>, d)"
  by (auto simp: loadChunkFromDisk_def Let_def)

lemma loadChunkFromDisk_read:
  assumes "\<not> open_fault e" and "files d (chunkFile m req) = Some f"
    and "0 \<le> sint (Size req)" and "sint (Size req) \<le> maxAlloc"
  shows "loadChunkFromDisk m e req d =
     (case ReadAt e (content f) (replicate (nat (sint (Size req))) 0) (fOffset req) of
        (buf, n, err) \<Rightarrow>
          if 0 < n \<and> (err = None \<or> err = Some EOF \<or> err = Some ErrUnexpectedEOF)
          then Inr (\<lparr>Error = None, Bytes = buf\<rparr>, Chtimes e d (chunkFile m req))
          else Inr (\<lparr>Error = Some (Errorf ''Could not read file %s at %v''
                                     [ArgFile (chunkFile m req), ArgInt (fOffset req)]),
                     Bytes = []\<rparr>, d))"
proof -
  let ?buf0 = "replicate (nat (sint (Size req))) (0::byte)"
  obtain buf n err where r: "ReadAt e (content f) ?buf0 (fOffset req) = (buf, n, err)"
    by (cases "ReadAt e (content f) ?buf0 (fOffset req)")
  have len: "int (length buf) = sint (Size req)"
    using ReadAt_length [of e "content f" ?buf0 "fOffset req"] assms(3) by (simp add: r)
  have "sint (int64_of_float (math_Min (float64 (sint (Size req))) (float64 (int (length buf)))))
      = int (length buf)"
    using assms(3,4) by (simp add: len float_min_clip)
  then have sl: "slice buf 0
      (int64_of_float (math_Min (float64 (sint (Size req))) (float64 (int (length buf))))) = Inr buf"
    by (rule slice_full)
  have mk: "make_bytes (Size req) = Inr ?buf0"
    using assms(3,4) by (simp add: make_bytes_def)
  show ?thesis
    using assms(1,2) by (simp add: loadChunkFromDisk_def Let_def mk r sl)
qed

lemma go_rem_1024_dvd:
  assumes "4096 \<le> sint cs"
  shows "(go_rem cs 1024 = 0) = (1024 dvd sint cs)"
proof -
  have "sint (go_rem cs 1024) = sint cs mod 1024"
    using assms go_rem_nonneg [of cs 1024] by simp
  moreover have "(go_rem cs 1024 = 0) = (sint (go_rem cs 1024) = 0)"
    by (simp only: signed_eq_0_iff)
  ultimately show ?thesis
    by (simp add: dvd_eq_mod_eq_0)
qed

section \<open>Construction\<close>

text \<open>
  Claim C5. \<open>NewChunkManager\<close> returns an error, and no manager, exactly when the path is
  empty, the chunk size is below 4096, or the chunk size is not a multiple of 1024; otherwise
  it returns the manager holding the path, the chunk size and the gateway. The theorem
  after it runs the six cases the specification names: chunk sizes 0, 1000 and 4097 and the
  empty path fail, chunk sizes 4096 and 8192 with a path succeed.
\<close>

theorem NewChunkManager_error_iff:
  "(\<exists>err. NewChunkManager dm chunkPath chunkSize = Inl err) =
     (chunkPath = [] \<or> sint chunkSize < 4096 \<or> \<not> 1024 dvd sint chunkSize)
   \<and> (NewChunkManager dm chunkPath chunkSize =
        Inr \<lparr>ChunkPath = chunkPath, ChunkSize = chunkSize, downloadManager = dm\<rparr>) =
     (chunkPath \<noteq> [] \<and> 4096 \<le> sint chunkSize \<and> 1024 dvd sint chunkSize)"
proof (cases "4096 \<le> sint chunkSize")
  case True
  then show ?thesis
    by (simp add: NewChunkManager_def go_rem_1024_dvd)
next
  case False
  then show ?thesis
    by (simp add: NewChunkManager_def)
qed

theorem NewChunkManager_error_iff_witness:
  "(\<exists>err. NewChunkManager DownloadManager ''cache'' 0 = Inl err)
   \<and> (\<exists>err. NewChunkManager DownloadManager ''cache'' 1000 = Inl err)
   \<and> (\<exists>err. NewChunkManager DownloadManager ''cache'' 4097 = Inl err)
   \<and> (\<exists>err. NewChunkManager DownloadManager [] 4096 = Inl err)
   \<and> NewChunkManager DownloadManager ''cache'' 4096 =
       Inr \<lparr>ChunkPath = ''cache'', ChunkSize = 4096, downloadManager = DownloadManager\<rparr>
   \<and> NewChunkManager DownloadManager ''cache'' 8192 =
       Inr \<lparr>ChunkPath = ''cache'', ChunkSize = 8192, downloadManager = DownloadManager\<rparr>"
  using NewChunkManager_error_iff [of DownloadManager "''cache''" 0]
    NewChunkManager_error_iff [of DownloadManager "''cache''" 1000]
    NewChunkManager_error_iff [of DownloadManager "''cache''" 4097]
    NewChunkManager_error_iff [of DownloadManager "[]" 4096]
    NewChunkManager_error_iff [of DownloadManager "''cache''" 4096]
    NewChunkManager_error_iff [of DownloadManager "''cache''" 8192]
  by simp

section \<open>Alignment\<close>

text \<open>
  Claim C4, as stated, fails: \<open>req.offsetEnd\<close> is the \<open>int64\<close> sum \<open>offsetStart + ChunkSize\<close> and
  wraps in the last window below \<open>2^63\<close>. With chunk size 4096 and offset \<open>2^63 - 1\<close> the
  in-window offset is 4095 and the window starts at \<open>2^63 - 4096\<close>; the window end is
  \<open>- 2^63\<close>, which is not the integer \<open>offsetStart + ChunkSize\<close>, and the offset is not below
  it.
\<close>

theorem align_window_end_wraps:
  "4096 \<le> sint (ChunkSize (sample_manager 4096))
   \<and> 1024 dvd sint (ChunkSize (sample_manager 4096))
   \<and> 0 \<le> sint (Offset (sample_request 9223372036854775807 1))
   \<and> align (sample_manager 4096) (sample_request 9223372036854775807 1) =
       Inr ((sample_request 9223372036854775807 1)\<lparr>fOffset := 4095,
              offsetStart := 9223372036854771712, offsetEnd := 9223372036854775808,
              req_id := (''obj'', 9223372036854771712)\<rparr>)
   \<and> sint (9223372036854775808 :: int64) = - 9223372036854775808
   \<and> sint (9223372036854771712 :: int64) + sint (ChunkSize (sample_manager 4096))
       = 9223372036854775808
   \<and> \<not> sint (Offset (sample_request 9223372036854775807 1))
         < sint (9223372036854775808 :: int64)"
  by (simp add: sample_manager_def sample_request_def align_def go_rem_def
      signed_modulo_int_def)

text \<open>
  Claim C4, amended. For a chunk size that is a multiple of 1024 and at least 4096 and an
  offset that is not negative, the derived fields are computed without a panic and, read as
  integers, satisfy \<open>offsetStart \<le> Offset < offsetStart + ChunkSize\<close>,
  \<open>offsetStart mod ChunkSize = 0\<close> and \<open>0 \<le> fOffset < ChunkSize\<close>, with
  \<open>fOffset = Offset mod ChunkSize\<close> and \<open>offsetStart = Offset - Offset mod ChunkSize\<close>. When
  the integer \<open>offsetStart + ChunkSize\<close> is below \<open>2^63\<close>, \<open>offsetEnd\<close> is that integer and the
  offset lies below it.
\<close>

theorem align_window:
  assumes "4096 \<le> sint (ChunkSize m)" and "1024 dvd sint (ChunkSize m)"
    and "0 \<le> sint (Offset req0)"
  shows "\<exists>req. align m req0 = Inr req
    \<and> sint (offsetStart req) \<le> sint (Offset req0)
    \<and> sint (Offset req0) < sint (offsetStart req) + sint (ChunkSize m)
    \<and> sint (offsetStart req) mod sint (ChunkSize m) = 0
    \<and> 0 \<le> sint (fOffset req) \<and> sint (fOffset req) < sint (ChunkSize m)
    \<and> sint (fOffset req) = sint (Offset req0) mod sint (ChunkSize m)
    \<and> sint (offsetStart req) = sint (Offset req0) - sint (Offset req0) mod sint (ChunkSize m)
    \<and> (sint (offsetStart req) + sint (ChunkSize m) < 2 ^ 63 \<longrightarrow>
          sint (offsetEnd req) = sint (offsetStart req) + sint (ChunkSize m)
          \<and> sint (Offset req0) < sint (offsetEnd req))"
proof -
  have pos: "0 < sint (ChunkSize m)" using assms(1) by simp
  from align_nonneg [OF pos assms(3)] obtain req where r: "align m req0 = Inr req"
    and f: "sint (fOffset req) = sint (Offset req0) mod sint (ChunkSize m)"
    and s: "sint (offsetStart req) = sint (Offset req0) - sint (Offset req0) mod sint (ChunkSize m)"
    and e: "offsetEnd req = offsetStart req + ChunkSize m"
    by blast
  have lt: "sint (Offset req0) mod sint (ChunkSize m) < sint (ChunkSize m)"
    and ge: "0 \<le> sint (Offset req0) mod sint (ChunkSize m)"
    using pos by simp_all
  have le: "sint (Offset req0) mod sint (ChunkSize m) \<le> sint (Offset req0)"
    using assms(3) pos by (simp add: zmod_le_nonneg_dividend)
  have md: "(sint (Offset req0) - sint (Offset req0) mod sint (ChunkSize m)) mod sint (ChunkSize m) = 0"
    by (simp add: minus_mod_eq_mult_div)
  have w: "sint (offsetStart req) + sint (ChunkSize m) < 2 ^ 63 \<longrightarrow>
          sint (offsetEnd req) = sint (offsetStart req) + sint (ChunkSize m)
          \<and> sint (Offset req0) < sint (offsetEnd req)"
  proof
    assume hi: "sint (offsetStart req) + sint (ChunkSize m) < 2 ^ 63"
    have lo: "- (2 ^ 63) \<le> sint (offsetStart req) + sint (ChunkSize m)"
      using pos le by (simp add: s)
    have "sint (offsetEnd req) = sint (offsetStart req) + sint (ChunkSize m)"
      unfolding e using lo hi by (rule sint_add64)
    then show "sint (offsetEnd req) = sint (offsetStart req) + sint (ChunkSize m)
          \<and> sint (Offset req0) < sint (offsetEnd req)"
      using lt by (simp add: s)
  qed
  have "sint (offsetStart req) \<le> sint (Offset req0)"
    "sint (Offset req0) < sint (offsetStart req) + sint (ChunkSize m)"
    "sint (offsetStart req) mod sint (ChunkSize m) = 0"
    "0 \<le> sint (fOffset req)" "sint (fOffset req) < sint (ChunkSize m)"
    using f s lt ge md by simp_all
  with r f s w show ?thesis
    by - (rule exI [of _ req], intro conjI, assumption+)
qed

theorem align_window_witness:
  "4096 \<le> sint (ChunkSize (sample_manager 8192))
   \<and> 1024 dvd sint (ChunkSize (sample_manager 8192))
   \<and> 0 \<le> sint (Offset (sample_request 9000 2000))
   \<and> sint (8192 :: int64) + sint (ChunkSize (sample_manager 8192)) < 2 ^ 63
   \<and> align (sample_manager 8192) (sample_request 9000 2000) =
       Inr ((sample_request 9000 2000)\<lparr>fOffset := 808, offsetStart := 8192, offsetEnd := 16384,
              req_id := (''obj'', 8192)\<rparr>)
   \<and> sint (16384 :: int64) = sint (8192 :: int64) + sint (ChunkSize (sample_manager 8192))
   \<and> sint (Offset (sample_request 9000 2000)) < sint (16384 :: int64)"
  using align_window [of "sample_manager 8192" "sample_request 9000 2000"]
  by (simp add: sample_manager_def sample_request_def align_def go_rem_def signed_modulo_int_def)

section \<open>The run of one request\<close>

lemma RequestChunk_net_fail:
  assumes "align m req0 = Inr req" and "loadChunkFromDisk m e req d = Inr (diskRes, d1)"
    and "Error (api e req) \<noteq> None"
  shows "RequestChunk m e req0 d =
    \<lparr>events = (if Error diskRes \<noteq> None then [] else [Message diskRes]) @ [Message (api e req), Close],
     gateway_calls = [req], disk_after = d1, panicked = None\<rparr>"
  using assms by (auto simp add: RequestChunk_def Let_def)

lemma RequestChunk_net_ok:
  assumes "align m req0 = Inr req" and "loadChunkFromDisk m e req d = Inr (diskRes, d1)"
    and "Error (api e req) = None" and "subrange req (Bytes (api e req)) = Inr bs"
  shows "RequestChunk m e req0 d =
    \<lparr>events = (if Error diskRes \<noteq> None then [] else [Message diskRes])
        @ [Message \<lparr>Error = None, Bytes = bs\<rparr>, Close],
     gateway_calls = [req], disk_after = storeChunkToDisk m e req (api e req) d1,
     panicked = None\<rparr>"
  using assms by (simp add: RequestChunk_def Let_def)

lemma RequestChunk_net_panic:
  assumes "align m req0 = Inr req" and "loadChunkFromDisk m e req d = Inr (diskRes, d1)"
    and "Error (api e req) = None" and "subrange req (Bytes (api e req)) = Inl p"
  shows "RequestChunk m e req0 d =
    \<lparr>events = (if Error diskRes \<noteq> None then [] else [Message diskRes]) @ [Close],
     gateway_calls = [req], disk_after = d1, panicked = Some p\<rparr>"
  using assms by (simp add: RequestChunk_def Let_def)

lemma RequestChunk_disk_panic:
  assumes "align m req0 = Inr req" and "loadChunkFromDisk m e req d = Inl p"
  shows "RequestChunk m e req0 d =
    \<lparr>events = [Close], gateway_calls = [], disk_after = d, panicked = Some p\<rparr>"
  using assms by (simp add: RequestChunk_def)

lemma RequestChunk_align_panic:
  assumes "align m req0 = Inl p"
  shows "RequestChunk m e req0 d =
    \<lparr>events = [Close], gateway_calls = [], disk_after = d, panicked = Some p\<rparr>"
  using assms by (simp add: RequestChunk_def)

lemma gateway_called:
  assumes "gateway_calls (RequestChunk m e req0 d) = [req]"
  shows "align m req0 = Inr req \<and> (\<exists>diskRes d1. loadChunkFromDisk m e req d = Inr (diskRes, d1))"
proof (cases "align m req0")
  case (Inl p)
  with assms show ?thesis by (simp add: RequestChunk_align_panic)
next
  case (Inr r)
  show ?thesis
  proof (cases "loadChunkFromDisk m e r d")
    case (Inl p)
    with Inr assms show ?thesis by (simp add: RequestChunk_disk_panic)
  next
    case ld: (Inr x)
    obtain diskRes d1 where x: "x = (diskRes, d1)" by (cases x)
    have "gateway_calls (RequestChunk m e req0 d) = [r]"
    proof (cases "Error (api e r) = None")
      case False
      then show ?thesis using Inr ld x by (simp add: RequestChunk_net_fail)
    next
      case True
      then show ?thesis using Inr ld x
        by (cases "subrange r (Bytes (api e r))")
          (simp_all add: RequestChunk_net_panic RequestChunk_net_ok)
    qed
    with assms have "r = req" by simp
    with Inr ld x show ?thesis by auto
  qed
qed


lemma loadChunkFromDisk_disk:
  assumes "loadChunkFromDisk m e req d = Inr (r, d1)"
  shows "d1 = d \<or> (Error r = None \<and> d1 = Chtimes e d (chunkFile m req))"
  using assms
  by (auto simp: loadChunkFromDisk_def Let_def
      split: option.splits sum.splits prod.splits if_splits)

lemma loadChunkFromDisk_error_disk:
  assumes "loadChunkFromDisk m e req d = Inr (r, d1)" and "Error r \<noteq> None"
  shows "d1 = d"
  using loadChunkFromDisk_disk [OF assms(1)] assms(2) by auto


text \<open>Unfolding of the model on concrete inputs.\<close>

lemma zero_bytes_unfold: "replicate (numeral k) (b::byte) = b # replicate (numeral k - 1) b"
  by (metis Suc_pred' replicate_Suc zero_less_numeral)

lemmas run_eval = zero_bytes_unfold RequestChunk_def align_def go_rem_def signed_modulo_int_def
  loadChunkFromDisk_def chunkFile_def chunkDir_def make_bytes_def maxAlloc_def ReadAt_def
  Chtimes_def slice_def subrange_def subrange_bounds_def math_Min_def int64_of_float_def
  float64_exact storeChunkToDisk_def MkdirAll_def WriteFile_def sample_manager_def
  sample_request_def calm_env_def empty_disk_def cached_disk_def failed_download_def Let_def

section \<open>Gateway failure\<close>



section \<open>Disk failure\<close>

lemma error_messages_from_gateway:
  assumes "Message x \<in> set (events (RequestChunk m e req0 d))" and "Error x \<noteq> None"
  shows "\<exists>req. gateway_calls (RequestChunk m e req0 d) = [req] \<and> x = api e req"
proof (cases "align m req0")
  case (Inl p)
  with assms show ?thesis by (simp add: RequestChunk_align_panic)
next
  case a: (Inr req)
  show ?thesis
  proof (cases "loadChunkFromDisk m e req d")
    case (Inl p)
    with a assms show ?thesis by (simp add: RequestChunk_disk_panic)
  next
    case (Inr y)
    obtain diskRes d1 where l: "loadChunkFromDisk m e req d = Inr (diskRes, d1)"
      using Inr by (cases y) simp
    show ?thesis
    proof (cases "Error (api e req) = None")
      case False
      from assms show ?thesis
        unfolding RequestChunk_net_fail [OF a l False] by (auto split: if_splits)
    next
      case True
      show ?thesis
      proof (cases "subrange req (Bytes (api e req))")
        case (Inl p)
        from assms show ?thesis
          unfolding RequestChunk_net_panic [OF a l True Inl] by (auto split: if_splits)
      next
        case (Inr bs)
        from assms show ?thesis
          unfolding RequestChunk_net_ok [OF a l True Inr] by (auto split: if_splits)
      qed
    qed
  qed
qed

lemma RequestChunk_returned:
  assumes "align m req0 = Inr req" and "loadChunkFromDisk m e req d = Inr (diskRes, d1)"
  shows "RequestChunk m e req0 d =
    (if Error (api e req) \<noteq> None
     then \<lparr>events = (if Error diskRes \<noteq> None then [] else [Message diskRes])
                @ [Message (api e req), Close],
           gateway_calls = [req], disk_after = d1, panicked = None\<rparr>
     else case subrange req (Bytes (api e req)) of
            Inl p \<Rightarrow>
              \<lparr>events = (if Error diskRes \<noteq> None then [] else [Message diskRes]) @ [Close],
               gateway_calls = [req], disk_after = d1, panicked = Some p\<rparr>
          | Inr bs \<Rightarrow>
              \<lparr>events = (if Error diskRes \<noteq> None then [] else [Message diskRes])
                   @ [Message \<lparr>Error = None, Bytes = bs\<rparr>, Close],
               gateway_calls = [req], disk_after = storeChunkToDisk m e req (api e req) d1,
               panicked = None\<rparr>)"
  using assms by (auto simp add: RequestChunk_def Let_def split: sum.splits)

text \<open>
  Claim C8. When \<open>loadChunkFromDisk\<close> returns an error, \<open>RequestChunk\<close> sends nothing for the
  disk step and goes on to call the gateway: the stream is exactly what the network step
  sends, and every error message a consumer reads is the gateway's response.
\<close>

theorem RequestChunk_disk_error_absorbed:
  assumes "align m req0 = Inr req"
    and "loadChunkFromDisk m e req d = Inr (diskRes, d1)"
    and "Error diskRes \<noteq> None"
  shows "gateway_calls (RequestChunk m e req0 d) = [req]
    \<and> events (RequestChunk m e req0 d) =
        (if Error (api e req) \<noteq> None then [Message (api e req), Close]
         else case subrange req (Bytes (api e req)) of
                Inl p \<Rightarrow> [Close]
              | Inr bs \<Rightarrow> [Message \<lparr>Error = None, Bytes = bs\<rparr>, Close])
    \<and> (\<forall>x. Message x \<in> set (events (RequestChunk m e req0 d)) \<longrightarrow> Error x \<noteq> None
           \<longrightarrow> x = api e req)"
proof -
  note run = RequestChunk_returned [OF assms(1,2)]
  have g: "gateway_calls (RequestChunk m e req0 d) = [req]"
    unfolding run by (simp split: sum.splits)
  have ev: "events (RequestChunk m e req0 d) =
        (if Error (api e req) \<noteq> None then [Message (api e req), Close]
         else case subrange req (Bytes (api e req)) of
                Inl p \<Rightarrow> [Close]
              | Inr bs \<Rightarrow> [Message \<lparr>Error = None, Bytes = bs\<rparr>, Close])"
    unfolding run using assms(3) by (simp split: sum.splits)
  have "\<forall>x. Message x \<in> set (events (RequestChunk m e req0 d)) \<longrightarrow> Error x \<noteq> None
           \<longrightarrow> x = api e req"
    using error_messages_from_gateway [of _ m e req0 d] g by auto
  with g ev show ?thesis by blast
qed

theorem RequestChunk_disk_error_absorbed_witness:
  "align (sample_manager 4096) (sample_request 4097 4)
     = Inr ((sample_request 4097 4)\<lparr>fOffset := 1, offsetStart := 4096, offsetEnd := 8192,
          req_id := (''obj'', 4096)\<rparr>)
   \<and> loadChunkFromDisk (sample_manager 4096) (calm_env failed_download)
        ((sample_request 4097 4)\<lparr>fOffset := 1, offsetStart := 4096, offsetEnd := 8192,
          req_id := (''obj'', 4096)\<rparr>) empty_disk
     = Inr (\<lparr>Error = Some (Errorf ''Could not open file %v''
                [ArgFile ((''cache'', ''obj''), 4096)]), Bytes = []\<rparr>, empty_disk)
   \<and> events (RequestChunk (sample_manager 4096) (calm_env failed_download)
        (sample_request 4097 4) empty_disk) = [Message failed_download, Close]"
proof -
  have h1: "align (sample_manager 4096) (sample_request 4097 4)
     = Inr ((sample_request 4097 4)\<lparr>fOffset := 1, offsetStart := 4096, offsetEnd := 8192,
          req_id := (''obj'', 4096)\<rparr>)"
    by (simp add: run_eval)
  have h2: "loadChunkFromDisk (sample_manager 4096) (calm_env failed_download)
        ((sample_request 4097 4)\<lparr>fOffset := 1, offsetStart := 4096, offsetEnd := 8192,
          req_id := (''obj'', 4096)\<rparr>) empty_disk
     = Inr (\<lparr>Error = Some (Errorf ''Could not open file %v''
                [ArgFile ((''cache'', ''obj''), 4096)]), Bytes = []\<rparr>, empty_disk)"
    by (simp add: run_eval)
  have h3: "Error \<lparr>Error = Some (Errorf ''Could not open file %v''
                [ArgFile ((''cache'', ''obj''), 4096)]), Bytes = []\<rparr> \<noteq> None"
    by simp
  show ?thesis
    using RequestChunk_disk_error_absorbed [OF h1 h2 h3] h1 h2
    by (simp add: calm_env_def failed_download_def)
qed

section \<open>Reads of zero bytes\<close>





section \<open>The sub-range of the gateway's bytes\<close>

lemma subrange_wrapped:
  assumes "sint (fOffset req + Size req) < 0"
  shows "sint (snd (subrange_bounds req bs)) < 0"
    and "subrange req bs = Inl SliceBoundsOutOfRange"
proof -
  show e: "sint (snd (subrange_bounds req bs)) < 0"
    using assms by (simp add: subrange_bounds_def float_min_neg)
  obtain s h where sh: "subrange_bounds req bs = (s, h)" by (cases "subrange_bounds req bs")
  with e have "sint h < 0" by simp
  then have "\<not> (0 \<le> sint s \<and> sint s \<le> sint h \<and> sint h \<le> int (length bs))" by auto
  then show "subrange req bs = Inl SliceBoundsOutOfRange"
    unfolding subrange_def sh slice_def by simp
qed

text \<open>
  Claim C10, as stated, fails: \<open>req.fOffset + req.Size\<close> is an \<open>int64\<close> sum and wraps. With
  chunk size 8192, offset 9000 and size \<open>2^63 - 1\<close> the in-window offset is 808, the sum is
  negative, so is \<open>eOffset\<close>, while \<open>sOffset\<close> is 3 for three bytes from the gateway: the
  bounds are out of order and the slice expression panics.
\<close>

theorem subrange_bounds_overflow:
  "align (sample_manager 8192) (sample_request 9000 9223372036854775807)
     = Inr ((sample_request 9000 9223372036854775807)\<lparr>fOffset := 808, offsetStart := 8192,
              offsetEnd := 16384, req_id := (''obj'', 8192)\<rparr>)
   \<and> 0 \<le> sint (Offset (sample_request 9000 9223372036854775807))
   \<and> 0 \<le> sint (Size (sample_request 9000 9223372036854775807))
   \<and> sint (fst (subrange_bounds
        ((sample_request 9000 9223372036854775807)\<lparr>fOffset := 808, offsetStart := 8192,
              offsetEnd := 16384, req_id := (''obj'', 8192)\<rparr>) [1, 2, 3])) = 3
   \<and> sint (snd (subrange_bounds
        ((sample_request 9000 9223372036854775807)\<lparr>fOffset := 808, offsetStart := 8192,
              offsetEnd := 16384, req_id := (''obj'', 8192)\<rparr>) [1, 2, 3])) < 0
   \<and> subrange
        ((sample_request 9000 9223372036854775807)\<lparr>fOffset := 808, offsetStart := 8192,
              offsetEnd := 16384, req_id := (''obj'', 8192)\<rparr>) [1, 2, 3]
       = Inl SliceBoundsOutOfRange"
proof -
  let ?req = "(sample_request 9000 9223372036854775807)\<lparr>fOffset := 808, offsetStart := 8192,
              offsetEnd := 16384, req_id := (''obj'', 8192)\<rparr>"
  have w: "sint (fOffset ?req + Size ?req) < 0"
    by (simp add: sample_request_def)
  have s: "sint (fst (subrange_bounds ?req [1, 2, 3])) = 3"
    by (simp add: subrange_bounds_def sample_request_def math_Min_def float64_exact
        int64_of_float_def)
  show ?thesis
    using subrange_wrapped [OF w, of "[1, 2, 3]"] s
    by (simp add: align_def go_rem_def signed_modulo_int_def sample_manager_def
        sample_request_def)
qed

text \<open>
  Claim C10, amended. For a manager with a valid chunk size, a request with offset and size
  not negative whose sum \<open>Offset mod ChunkSize + Size\<close> stays below \<open>2^63\<close>, and gateway bytes
  of a length \<open>L\<close> a Go slice can have, the bounds are \<open>sOffset = min fOffset L\<close> and
  \<open>eOffset = min (fOffset + Size) L\<close>, they satisfy \<open>0 \<le> sOffset \<le> eOffset \<le> L\<close>, the slice
  expression does not panic and yields exactly \<open>eOffset - sOffset\<close> bytes.
\<close>

theorem subrange_in_bounds:
  assumes "4096 \<le> sint (ChunkSize m)" and "1024 dvd sint (ChunkSize m)"
    and "0 \<le> sint (Offset req0)" and "0 \<le> sint (Size req0)"
    and "sint (Offset req0) mod sint (ChunkSize m) + sint (Size req0) < 2 ^ 63"
    and "int (length bs) \<le> maxAlloc"
  shows "\<exists>req. align m req0 = Inr req
    \<and> sint (fst (subrange_bounds req bs))
        = min (sint (Offset req0) mod sint (ChunkSize m)) (int (length bs))
    \<and> sint (snd (subrange_bounds req bs))
        = min (sint (Offset req0) mod sint (ChunkSize m) + sint (Size req0)) (int (length bs))
    \<and> 0 \<le> sint (fst (subrange_bounds req bs))
    \<and> sint (fst (subrange_bounds req bs)) \<le> sint (snd (subrange_bounds req bs))
    \<and> sint (snd (subrange_bounds req bs)) \<le> int (length bs)
    \<and> (\<exists>out. subrange req bs = Inr out
          \<and> int (length out)
              = sint (snd (subrange_bounds req bs)) - sint (fst (subrange_bounds req bs)))"
proof -
  have pos: "0 < sint (ChunkSize m)" using assms(1) by simp
  from align_nonneg [OF pos assms(3)] obtain req where a: "align m req0 = Inr req"
    and f: "sint (fOffset req) = sint (Offset req0) mod sint (ChunkSize m)"
    and sz: "Size req = Size req0"
    by blast
  have f0: "0 \<le> sint (fOffset req)" using pos by (simp add: f)
  have s0: "0 \<le> sint (Size req)" using assms(4) by (simp add: sz)
  have no: "sint (fOffset req) + sint (Size req) < 2 ^ 63" using assms(5) by (simp add: f sz)
  let ?F = "sint (Offset req0) mod sint (ChunkSize m)"
  let ?L = "int (length bs)"
  have F0: "0 \<le> ?F" using pos by simp
  have b1: "sint (fst (subrange_bounds req bs)) = min ?F ?L"
    using subrange_bounds_clip(1) [OF f0 s0 no assms(6)] by (simp add: f)
  have b2: "sint (snd (subrange_bounds req bs)) = min (?F + sint (Size req0)) ?L"
    using subrange_bounds_clip(2) [OF f0 s0 no assms(6)] by (simp add: f sz)
  have c: "subrange req bs
      = Inr (drop (nat (min ?F ?L)) (take (nat (min (?F + sint (Size req0)) ?L)) bs))"
    using subrange_clip [OF f0 s0 no assms(6)] by (simp add: f sz)
  have len: "int (length (drop (nat (min ?F ?L)) (take (nat (min (?F + sint (Size req0)) ?L)) bs)))
      = min (?F + sint (Size req0)) ?L - min ?F ?L"
    using F0 assms(4) by (auto simp: min_def)
  have o: "\<exists>out. subrange req bs = Inr out
          \<and> int (length out)
              = sint (snd (subrange_bounds req bs)) - sint (fst (subrange_bounds req bs))"
    unfolding b1 b2 c using len by blast
  have r: "0 \<le> sint (fst (subrange_bounds req bs))"
    "sint (fst (subrange_bounds req bs)) \<le> sint (snd (subrange_bounds req bs))"
    "sint (snd (subrange_bounds req bs)) \<le> int (length bs)"
    unfolding b1 b2 using F0 assms(4) by simp_all
  from a b1 b2 r o show ?thesis by blast
qed

theorem subrange_in_bounds_witness:
  "4096 \<le> sint (ChunkSize (sample_manager 8192))
   \<and> 1024 dvd sint (ChunkSize (sample_manager 8192))
   \<and> 0 \<le> sint (Offset (sample_request 9000 2000))
   \<and> 0 \<le> sint (Size (sample_request 9000 2000))
   \<and> sint (Offset (sample_request 9000 2000)) mod sint (ChunkSize (sample_manager 8192))
        + sint (Size (sample_request 9000 2000)) < 2 ^ 63
   \<and> int (length (replicate 1808 (0::byte))) \<le> maxAlloc
   \<and> subrange_bounds
        ((sample_request 9000 2000)\<lparr>fOffset := 808, offsetStart := 8192, offsetEnd := 16384,
              req_id := (''obj'', 8192)\<rparr>) (replicate 1808 0) = (808, 1808)
   \<and> subrange
        ((sample_request 9000 2000)\<lparr>fOffset := 808, offsetStart := 8192, offsetEnd := 16384,
              req_id := (''obj'', 8192)\<rparr>) (replicate 1808 0) = Inr (replicate 1000 0)"
proof -
  have h: "4096 \<le> sint (ChunkSize (sample_manager 8192))"
    "1024 dvd sint (ChunkSize (sample_manager 8192))"
    "0 \<le> sint (Offset (sample_request 9000 2000))"
    "0 \<le> sint (Size (sample_request 9000 2000))"
    "sint (Offset (sample_request 9000 2000)) mod sint (ChunkSize (sample_manager 8192))
        + sint (Size (sample_request 9000 2000)) < 2 ^ 63"
    "int (length (replicate 1808 (0::byte))) \<le> maxAlloc"
    by (simp_all add: sample_manager_def sample_request_def maxAlloc_def)
  show ?thesis
    using subrange_in_bounds [OF h] h
    by (simp add: align_def go_rem_def signed_modulo_int_def sample_manager_def
        sample_request_def subrange_def subrange_bounds_def slice_def math_Min_def
        float64_exact int64_of_float_def maxAlloc_def)
qed

section \<open>The network step\<close>

lemma loadChunkFromDisk_returns:
  assumes "0 \<le> sint (Size req)" and "sint (Size req) \<le> maxAlloc"
  shows "\<exists>diskRes d1. loadChunkFromDisk m e req d = Inr (diskRes, d1)"
proof (cases "open_fault e \<or> files d (chunkFile m req) = None")
  case True
  then show ?thesis by (simp add: loadChunkFromDisk_miss_open)
next
  case False
  then obtain f where "\<not> open_fault e" and "files d (chunkFile m req) = Some f" by auto
  from loadChunkFromDisk_read [OF this assms] show ?thesis
    by (auto split: prod.splits if_splits)
qed

text \<open>
  Claim C2, as stated, fails for a request with offset 1 and size \<open>2^63 - 1\<close> on a manager
  with chunk size 4096 and an empty cache: the gateway is called and succeeds with three
  bytes, but \<open>req.fOffset + req.Size\<close> wraps to \<open>- 2^63\<close>, the slice expression panics, and
  the stream is closed without any message.
\<close>

theorem RequestChunk_overflow_no_message:
  "0 \<le> sint (Offset (sample_request 1 9223372036854775807))
   \<and> 0 < sint (Size (sample_request 1 9223372036854775807))
   \<and> gateway_calls (RequestChunk (sample_manager 4096)
        (calm_env \<lparr>Error = None, Bytes = [1, 2, 3]\<rparr>)
        (sample_request 1 9223372036854775807) empty_disk)
       = [(sample_request 1 9223372036854775807)\<lparr>fOffset := 1, offsetStart := 0,
             offsetEnd := 4096, req_id := (''obj'', 0)\<rparr>]
   \<and> Error (api (calm_env \<lparr>Error = None, Bytes = [1, 2, 3]\<rparr>)
        ((sample_request 1 9223372036854775807)\<lparr>fOffset := 1, offsetStart := 0,
             offsetEnd := 4096, req_id := (''obj'', 0)\<rparr>)) = None
   \<and> events (RequestChunk (sample_manager 4096)
        (calm_env \<lparr>Error = None, Bytes = [1, 2, 3]\<rparr>)
        (sample_request 1 9223372036854775807) empty_disk) = [Close]
   \<and> panicked (RequestChunk (sample_manager 4096)
        (calm_env \<lparr>Error = None, Bytes = [1, 2, 3]\<rparr>)
        (sample_request 1 9223372036854775807) empty_disk) = Some SliceBoundsOutOfRange"
proof -
  let ?req = "(sample_request 1 9223372036854775807)\<lparr>fOffset := 1, offsetStart := 0,
             offsetEnd := 4096, req_id := (''obj'', 0)\<rparr>"
  let ?e = "calm_env \<lparr>Error = None, Bytes = [1, 2, 3]\<rparr>"
  have a: "align (sample_manager 4096) (sample_request 1 9223372036854775807) = Inr ?req"
    by (simp add: align_def go_rem_def signed_modulo_int_def sample_manager_def
        sample_request_def)
  have l: "loadChunkFromDisk (sample_manager 4096) ?e ?req empty_disk
      = Inr (\<lparr>Error = Some (Errorf ''Could not open file %v''
               [ArgFile (chunkFile (sample_manager 4096) ?req)]), Bytes = []\<rparr>, empty_disk)"
    by (rule loadChunkFromDisk_miss_open) (simp add: empty_disk_def)
  have w: "sint (fOffset ?req + Size ?req) < 0"
    by (simp add: sample_request_def)
  have ok: "Error (api ?e ?req) = None"
    by (simp add: calm_env_def)
  have s: "subrange ?req (Bytes (api ?e ?req)) = Inl SliceBoundsOutOfRange"
    using w by (rule subrange_wrapped)
  show ?thesis
    unfolding RequestChunk_net_panic [OF a l ok s]
    by (simp add: sample_request_def calm_env_def)
qed

text \<open>
  Claim C2, amended. For a manager with a valid chunk size and a request with offset not
  negative, size positive and \<open>Offset mod ChunkSize + Size\<close> below \<open>2^63\<close>: when the gateway is
  called and succeeds with bytes of a length \<open>L\<close> a Go slice can have, the stream is the disk
  hit, if there was one, followed by the success message that holds exactly the bytes from
  index \<open>min (Offset mod ChunkSize) L\<close> up to \<open>min (Offset mod ChunkSize + Size) L\<close>, and the
  end of the stream. The theorem after it is the example of the specification: chunk size
  8192, offset 9000, size 2000 and 1808 bytes from the gateway give the 1000 bytes at the
  indices from 808 up to 1808.
\<close>

theorem RequestChunk_network_subrange:
  assumes "4096 \<le> sint (ChunkSize m)" and "1024 dvd sint (ChunkSize m)"
    and "0 \<le> sint (Offset req0)" and "0 < sint (Size req0)"
    and "sint (Offset req0) mod sint (ChunkSize m) + sint (Size req0) < 2 ^ 63"
    and "gateway_calls (RequestChunk m e req0 d) = [req]"
    and "Error (api e req) = None"
    and "int (length (Bytes (api e req))) \<le> maxAlloc"
  shows "\<exists>diskRes d1. loadChunkFromDisk m e req d = Inr (diskRes, d1)
    \<and> events (RequestChunk m e req0 d) =
        (if Error diskRes = None then [Message diskRes] else [])
        @ [Message \<lparr>Error = None,
             Bytes = drop (nat (min (sint (Offset req0) mod sint (ChunkSize m))
                                   (int (length (Bytes (api e req))))))
                       (take (nat (min (sint (Offset req0) mod sint (ChunkSize m)
                                          + sint (Size req0))
                                       (int (length (Bytes (api e req))))))
                          (Bytes (api e req)))\<rparr>,
           Close]"
proof -
  from gateway_called [OF assms(6)] obtain diskRes d1
    where a: "align m req0 = Inr req" and l: "loadChunkFromDisk m e req d = Inr (diskRes, d1)"
    by blast
  have pos: "0 < sint (ChunkSize m)" using assms(1) by simp
  from align_nonneg [OF pos assms(3)] a
  have f: "sint (fOffset req) = sint (Offset req0) mod sint (ChunkSize m)"
    and sz: "Size req = Size req0"
    by auto
  have f0: "0 \<le> sint (fOffset req)" using pos by (simp add: f)
  have s0: "0 \<le> sint (Size req)" using assms(4) by (simp add: sz)
  have no: "sint (fOffset req) + sint (Size req) < 2 ^ 63" using assms(5) by (simp add: f sz)
  note c = subrange_clip [OF f0 s0 no assms(8)]
  have "events (RequestChunk m e req0 d) =
        (if Error diskRes = None then [Message diskRes] else [])
        @ [Message \<lparr>Error = None,
             Bytes = drop (nat (min (sint (Offset req0) mod sint (ChunkSize m))
                                   (int (length (Bytes (api e req))))))
                       (take (nat (min (sint (Offset req0) mod sint (ChunkSize m)
                                          + sint (Size req0))
                                       (int (length (Bytes (api e req))))))
                          (Bytes (api e req)))\<rparr>,
           Close]"
    unfolding RequestChunk_net_ok [OF a l assms(7) c] by (simp add: f sz)
  with l show ?thesis by blast
qed

theorem RequestChunk_network_subrange_witness:
  "4096 \<le> sint (ChunkSize (sample_manager 8192))
   \<and> 1024 dvd sint (ChunkSize (sample_manager 8192))
   \<and> 0 \<le> sint (Offset (sample_request 9000 2000))
   \<and> 0 < sint (Size (sample_request 9000 2000))
   \<and> gateway_calls (RequestChunk (sample_manager 8192)
        (calm_env \<lparr>Error = None, Bytes = replicate 808 7 @ replicate 1000 9\<rparr>)
        (sample_request 9000 2000) empty_disk)
       = [(sample_request 9000 2000)\<lparr>fOffset := 808, offsetStart := 8192,
             offsetEnd := 16384, req_id := (''obj'', 8192)\<rparr>]
   \<and> length (replicate 808 (7::byte) @ replicate 1000 9) = 1808
   \<and> events (RequestChunk (sample_manager 8192)
        (calm_env \<lparr>Error = None, Bytes = replicate 808 7 @ replicate 1000 9\<rparr>)
        (sample_request 9000 2000) empty_disk)
       = [Message \<lparr>Error = None, Bytes = replicate 1000 9\<rparr>, Close]"
proof -
  let ?req = "(sample_request 9000 2000)\<lparr>fOffset := 808, offsetStart := 8192,
             offsetEnd := 16384, req_id := (''obj'', 8192)\<rparr>"
  let ?e = "calm_env \<lparr>Error = None, Bytes = replicate 808 7 @ replicate 1000 9\<rparr>"
  have a: "align (sample_manager 8192) (sample_request 9000 2000) = Inr ?req"
    by (simp add: align_def go_rem_def signed_modulo_int_def sample_manager_def
        sample_request_def)
  have l: "loadChunkFromDisk (sample_manager 8192) ?e ?req empty_disk
      = Inr (\<lparr>Error = Some (Errorf ''Could not open file %v''
               [ArgFile (chunkFile (sample_manager 8192) ?req)]), Bytes = []\<rparr>, empty_disk)"
    by (rule loadChunkFromDisk_miss_open) (simp add: empty_disk_def)
  have h: "4096 \<le> sint (ChunkSize (sample_manager 8192))"
    "1024 dvd sint (ChunkSize (sample_manager 8192))"
    "0 \<le> sint (Offset (sample_request 9000 2000))"
    "0 < sint (Size (sample_request 9000 2000))"
    "sint (Offset (sample_request 9000 2000)) mod sint (ChunkSize (sample_manager 8192))
        + sint (Size (sample_request 9000 2000)) < 2 ^ 63"
    by (simp_all add: sample_manager_def sample_request_def)
  have g: "gateway_calls (RequestChunk (sample_manager 8192) ?e (sample_request 9000 2000)
       empty_disk) = [?req]"
    unfolding RequestChunk_returned [OF a l] by (simp split: sum.splits)
  have ok: "Error (api ?e ?req) = None"
    and len: "int (length (Bytes (api ?e ?req))) \<le> maxAlloc"
    by (simp_all add: calm_env_def maxAlloc_def)
  show ?thesis
    using RequestChunk_network_subrange [OF h g ok len] h g l
    by (auto simp add: calm_env_def sample_manager_def sample_request_def)
qed

section \<open>The shapes of the stream\<close>

text \<open>
  Claim C3, as stated, fails in two ways, and both streams hold no message at all. The
  chunk size \<open>2^63 - 1024\<close> passes \<open>NewChunkManager\<close>; a request at offset \<open>2^63 - 1025\<close> of
  size 2000 misses the disk, the gateway succeeds, and \<open>req.fOffset + req.Size\<close> wraps, so
  the slice expression panics before anything is sent. And with chunk size 4096 and the
  chunk cached, a request of size \<open>2^63 - 1\<close> panics in \<open>make\<close> before the gateway is called.
  The deferred close runs in both.
\<close>

theorem RequestChunk_no_message:
  "NewChunkManager DownloadManager ''cache'' 9223372036854774784
     = Inr (sample_manager 9223372036854774784)
   \<and> 0 \<le> sint (Offset (sample_request 9223372036854774783 2000))
   \<and> 0 < sint (Size (sample_request 9223372036854774783 2000))
   \<and> loadChunkFromDisk (sample_manager 9223372036854774784)
        (calm_env \<lparr>Error = None, Bytes = [1, 2, 3]\<rparr>)
        ((sample_request 9223372036854774783 2000)\<lparr>fOffset := 9223372036854774783,
            offsetStart := 0, offsetEnd := 9223372036854774784, req_id := (''obj'', 0)\<rparr>)
        empty_disk
       = Inr (\<lparr>Error = Some (Errorf ''Could not open file %v''
                 [ArgFile ((''cache'', ''obj''), 0)]), Bytes = []\<rparr>, empty_disk)
   \<and> gateway_calls (RequestChunk (sample_manager 9223372036854774784)
        (calm_env \<lparr>Error = None, Bytes = [1, 2, 3]\<rparr>)
        (sample_request 9223372036854774783 2000) empty_disk)
       = [(sample_request 9223372036854774783 2000)\<lparr>fOffset := 9223372036854774783,
            offsetStart := 0, offsetEnd := 9223372036854774784, req_id := (''obj'', 0)\<rparr>]
   \<and> events (RequestChunk (sample_manager 9223372036854774784)
        (calm_env \<lparr>Error = None, Bytes = [1, 2, 3]\<rparr>)
        (sample_request 9223372036854774783 2000) empty_disk) = [Close]
   \<and> events (RequestChunk (sample_manager 4096)
        (calm_env \<lparr>Error = None, Bytes = [1, 2, 3]\<rparr>)
        (sample_request 4096 9223372036854775807) (cached_disk 4096 [1, 2, 3])) = [Close]
   \<and> panicked (RequestChunk (sample_manager 4096)
        (calm_env \<lparr>Error = None, Bytes = [1, 2, 3]\<rparr>)
        (sample_request 4096 9223372036854775807) (cached_disk 4096 [1, 2, 3]))
       = Some MakeSliceLenOutOfRange"
proof -
  let ?req = "(sample_request 9223372036854774783 2000)\<lparr>fOffset := 9223372036854774783,
            offsetStart := 0, offsetEnd := 9223372036854774784, req_id := (''obj'', 0)\<rparr>"
  let ?m = "sample_manager 9223372036854774784"
  let ?e = "calm_env \<lparr>Error = None, Bytes = [1, 2, 3]\<rparr>"
  have n: "NewChunkManager DownloadManager ''cache'' 9223372036854774784 = Inr ?m"
    by (simp add: NewChunkManager_def go_rem_def signed_modulo_int_def sample_manager_def)
  have a: "align ?m (sample_request 9223372036854774783 2000) = Inr ?req"
    by (simp add: align_def go_rem_def signed_modulo_int_def sample_manager_def
        sample_request_def)
  have l: "loadChunkFromDisk ?m ?e ?req empty_disk
      = Inr (\<lparr>Error = Some (Errorf ''Could not open file %v''
               [ArgFile (chunkFile ?m ?req)]), Bytes = []\<rparr>, empty_disk)"
    by (rule loadChunkFromDisk_miss_open) (simp add: empty_disk_def)
  have w: "sint (fOffset ?req + Size ?req) < 0"
    by (simp add: sample_request_def)
  have ok: "Error (api ?e ?req) = None"
    by (simp add: calm_env_def)
  have s: "subrange ?req (Bytes (api ?e ?req)) = Inl SliceBoundsOutOfRange"
    using w by (rule subrange_wrapped)
  have r1: "RequestChunk ?m ?e (sample_request 9223372036854774783 2000) empty_disk
      = \<lparr>events = [Close], gateway_calls = [?req], disk_after = empty_disk,
         panicked = Some SliceBoundsOutOfRange\<rparr>"
    unfolding RequestChunk_net_panic [OF a l ok s] by simp
  let ?req2 = "(sample_request 4096 9223372036854775807)\<lparr>fOffset := 0, offsetStart := 4096,
      offsetEnd := 8192, req_id := (''obj'', 4096)\<rparr>"
  have a2: "align (sample_manager 4096) (sample_request 4096 9223372036854775807) = Inr ?req2"
    by (simp add: align_def go_rem_def signed_modulo_int_def sample_manager_def
        sample_request_def)
  have l2: "loadChunkFromDisk (sample_manager 4096) ?e ?req2 (cached_disk 4096 [1, 2, 3])
      = Inl MakeSliceLenOutOfRange"
    by (simp add: loadChunkFromDisk_def chunkFile_def chunkDir_def make_bytes_def maxAlloc_def
        sample_manager_def sample_request_def calm_env_def cached_disk_def)
  note r2 = RequestChunk_disk_panic [OF a2 l2]
  show ?thesis
    using n l unfolding r1 r2
    by (simp add: sample_request_def sample_manager_def chunkFile_def chunkDir_def)
qed

text \<open>
  Claim C3, amended. For a manager with a valid chunk size, a gateway that returns Go
  slices, and a request with offset not negative, a size from 0 up to the largest
  allocation and \<open>Offset mod ChunkSize + Size\<close> below \<open>2^63\<close>, the goroutine does not panic,
  the disk lookup returns, and the stream has one of four shapes, each ending with the
  close: disk hit and gateway success give the disk message and then the network success;
  disk miss and gateway success give one success; disk hit and gateway failure give the
  disk message and then the gateway's error; disk miss and gateway failure give the
  gateway's error alone. The theorem after it runs the four shapes.
\<close>

theorem RequestChunk_shapes:
  assumes "4096 \<le> sint (ChunkSize m)" and "1024 dvd sint (ChunkSize m)"
    and "0 \<le> sint (Offset req0)"
    and "0 \<le> sint (Size req0)" and "sint (Size req0) \<le> maxAlloc"
    and "sint (Offset req0) mod sint (ChunkSize m) + sint (Size req0) < 2 ^ 63"
    and "\<And>r. int (length (Bytes (api e r))) \<le> maxAlloc"
  shows "\<exists>req diskRes d1. align m req0 = Inr req
    \<and> loadChunkFromDisk m e req d = Inr (diskRes, d1)
    \<and> panicked (RequestChunk m e req0 d) = None
    \<and> (Error diskRes = None \<and> Error (api e req) = None \<longrightarrow>
         (\<exists>bs. events (RequestChunk m e req0 d)
            = [Message diskRes, Message \<lparr>Error = None, Bytes = bs\<rparr>, Close]))
    \<and> (Error diskRes \<noteq> None \<and> Error (api e req) = None \<longrightarrow>
         (\<exists>bs. events (RequestChunk m e req0 d) = [Message \<lparr>Error = None, Bytes = bs\<rparr>, Close]))
    \<and> (Error diskRes = None \<and> Error (api e req) \<noteq> None \<longrightarrow>
         events (RequestChunk m e req0 d) = [Message diskRes, Message (api e req), Close])
    \<and> (Error diskRes \<noteq> None \<and> Error (api e req) \<noteq> None \<longrightarrow>
         events (RequestChunk m e req0 d) = [Message (api e req), Close])"
proof -
  have pos: "0 < sint (ChunkSize m)" using assms(1) by simp
  from align_nonneg [OF pos assms(3)] obtain req where a: "align m req0 = Inr req"
    and f: "sint (fOffset req) = sint (Offset req0) mod sint (ChunkSize m)"
    and sz: "Size req = Size req0"
    by blast
  have f0: "0 \<le> sint (fOffset req)" using pos by (simp add: f)
  have s0: "0 \<le> sint (Size req)" and s1: "sint (Size req) \<le> maxAlloc"
    using assms(4,5) by (simp_all add: sz)
  have no: "sint (fOffset req) + sint (Size req) < 2 ^ 63" using assms(6) by (simp add: f sz)
  from loadChunkFromDisk_returns [OF s0 s1] obtain diskRes d1
    where l: "loadChunkFromDisk m e req d = Inr (diskRes, d1)" by blast
  from subrange_clip [OF f0 s0 no assms(7)] obtain bs
    where c: "subrange req (Bytes (api e req)) = Inr bs" by blast
  note run = RequestChunk_returned [OF a l]
  have p: "panicked (RequestChunk m e req0 d) = None"
    unfolding run by (simp add: c)
  have 1: "Error diskRes = None \<and> Error (api e req) = None \<longrightarrow>
         (\<exists>bs. events (RequestChunk m e req0 d)
            = [Message diskRes, Message \<lparr>Error = None, Bytes = bs\<rparr>, Close])"
    unfolding run by (simp add: c)
  have 2: "Error diskRes \<noteq> None \<and> Error (api e req) = None \<longrightarrow>
         (\<exists>bs. events (RequestChunk m e req0 d) = [Message \<lparr>Error = None, Bytes = bs\<rparr>, Close])"
    unfolding run by (auto simp add: c)
  have 3: "Error diskRes = None \<and> Error (api e req) \<noteq> None \<longrightarrow>
         events (RequestChunk m e req0 d) = [Message diskRes, Message (api e req), Close]"
    unfolding run by auto
  have 4: "Error diskRes \<noteq> None \<and> Error (api e req) \<noteq> None \<longrightarrow>
         events (RequestChunk m e req0 d) = [Message (api e req), Close]"
    unfolding run by auto
  from a l p 1 2 3 4 show ?thesis by blast
qed

theorem RequestChunk_shapes_witness:
  "4096 \<le> sint (ChunkSize (sample_manager 4096))
   \<and> 1024 dvd sint (ChunkSize (sample_manager 4096))
   \<and> 0 \<le> sint (Offset (sample_request 4097 4))
   \<and> 0 \<le> sint (Size (sample_request 4097 4)) \<and> sint (Size (sample_request 4097 4)) \<le> maxAlloc
   \<and> sint (Offset (sample_request 4097 4)) mod sint (ChunkSize (sample_manager 4096))
        + sint (Size (sample_request 4097 4)) < 2 ^ 63
   \<and> events (RequestChunk (sample_manager 4096) (calm_env \<lparr>Error = None, Bytes = [1, 2, 3]\<rparr>)
        (sample_request 4097 4) (cached_disk 4096 [1, 2, 3]))
       = [Message \<lparr>Error = None, Bytes = [2, 3, 0, 0]\<rparr>,
          Message \<lparr>Error = None, Bytes = [2, 3]\<rparr>, Close]
   \<and> events (RequestChunk (sample_manager 4096) (calm_env \<lparr>Error = None, Bytes = [1, 2, 3]\<rparr>)
        (sample_request 4097 4) empty_disk)
       = [Message \<lparr>Error = None, Bytes = [2, 3]\<rparr>, Close]
   \<and> events (RequestChunk (sample_manager 4096) (calm_env failed_download)
        (sample_request 4097 4) (cached_disk 4096 [1, 2, 3]))
       = [Message \<lparr>Error = None, Bytes = [2, 3, 0, 0]\<rparr>, Message failed_download, Close]
   \<and> events (RequestChunk (sample_manager 4096) (calm_env failed_download)
        (sample_request 4097 4) empty_disk)
       = [Message failed_download, Close]"
proof -
  have h: "4096 \<le> sint (ChunkSize (sample_manager 4096))"
    "1024 dvd sint (ChunkSize (sample_manager 4096))"
    "0 \<le> sint (Offset (sample_request 4097 4))"
    "0 \<le> sint (Size (sample_request 4097 4))"
    "sint (Size (sample_request 4097 4)) \<le> maxAlloc"
    "sint (Offset (sample_request 4097 4)) mod sint (ChunkSize (sample_manager 4096))
        + sint (Size (sample_request 4097 4)) < 2 ^ 63"
    by (simp_all add: sample_manager_def sample_request_def maxAlloc_def)
  have g: "\<And>r. int (length (Bytes (api (calm_env \<lparr>Error = None, Bytes = [1, 2, 3]\<rparr>) r))) \<le> maxAlloc"
    by (simp add: calm_env_def maxAlloc_def)
  show ?thesis
    using RequestChunk_shapes [OF h g, of "cached_disk 4096 [1, 2, 3]"] h
    by (simp add: run_eval)
qed

section \<open>Write-once store\<close>












section \<open>The length of a disk hit\<close>

text \<open>
  A disk hit returns the whole read buffer: \<open>eOffset\<close> is the minimum of \<open>req.Size\<close> and
  \<open>len(buf)\<close>, which are equal, and the count \<open>n\<close> of bytes read is not used.
\<close>

lemma loadChunkFromDisk_hit_length:
  assumes "loadChunkFromDisk m e req d = Inr (r, d1)" and "Error r = None"
  shows "int (length (Bytes r)) = sint (Size req)"
proof -
  from assms have o: "\<not> open_fault e"
    by (auto simp: loadChunkFromDisk_def Let_def)
  from assms o obtain f where f: "files d (chunkFile m req) = Some f"
    by (cases "files d (chunkFile m req)") (auto simp: loadChunkFromDisk_def Let_def)
  from assms o f have s: "0 \<le> sint (Size req)" "sint (Size req) \<le> maxAlloc"
    by (auto simp: loadChunkFromDisk_def make_bytes_def Let_def split: if_splits)
  let ?buf0 = "replicate (nat (sint (Size req))) (0::byte)"
  obtain buf n err where rd: "ReadAt e (content f) ?buf0 (fOffset req) = (buf, n, err)"
    by (cases "ReadAt e (content f) ?buf0 (fOffset req)")
  have "length buf = length ?buf0"
    using ReadAt_length [of e "content f" ?buf0 "fOffset req"] by (simp add: rd)
  moreover have "Bytes r = buf"
    using assms unfolding loadChunkFromDisk_read [OF o f s] rd
    by (auto split: if_splits)
  ultimately show ?thesis using s(1) by simp
qed

text \<open>
  Claim C1. The claim asks for \<open>min (Size, n)\<close> bytes from a disk hit, \<open>n\<close> being the count
  of bytes read. The code does otherwise on the final, short chunk of an object: with chunk
  size 4096 and a cached chunk file of three bytes for the window at 4096, a request at
  offset 4097 of size 4 reads two bytes and reaches the end of the file, and the hit carries
  four bytes, the two read and two zero bytes of padding.
\<close>

theorem loadChunkFromDisk_pads_short_read:
  "ReadAt (calm_env failed_download) [1, 2, 3] (replicate 4 0) 1 = ([2, 3, 0, 0], 2, Some EOF)
   \<and> loadChunkFromDisk (sample_manager 4096) (calm_env failed_download)
        ((sample_request 4097 4)\<lparr>fOffset := 1, offsetStart := 4096, offsetEnd := 8192,
            req_id := (''obj'', 4096)\<rparr>) (cached_disk 4096 [1, 2, 3])
       = Inr (\<lparr>Error = None, Bytes = [2, 3, 0, 0]\<rparr>,
              cached_disk 4096 [1, 2, 3]\<lparr>files :=
                [((''cache'', ''obj''), 4096) \<mapsto> \<lparr>content = [1, 2, 3], atime = 1, mtime = 1\<rparr>]\<rparr>)
   \<and> length [2, 3, 0, 0 :: byte] = 4
   \<and> min (sint (Size (sample_request 4097 4))) 2 = 2"
  by (simp add: run_eval)

end
